theory Spec2Isabelle
  imports Main "HOL-Library.Word"
begin

section \<open>Data model\<close>

text \<open>
  The ways a run of the program can stop short of returning. \<open>SIGABRT\<close> is a call of
  \<open>abort()\<close>. The next four are the undefined behaviours of C that the code can reach:
  reading \<open>ports[port_num]\<close> outside the array, touching the scratch buffer \<open>string\<close>
  beyond \<open>MAX_STRING\<close> bytes, passing a null \<open>FILE *\<close> to stdio, and fetching a
  variadic argument at a type the caller did not pass. \<open>In_handler\<close> marks a stop inside
  a handler that the library called through a function pointer.
\<close>

datatype failure =
    SIGABRT
  | Ports_out_of_range
  | String_out_of_range
  | Null_stream
  | Vararg_mismatch
  | In_handler failure

text \<open>A \<open>FILE *\<close> is \<open>None\<close> (null) or the identity of an open stream.\<close>

type_synonym FILE = nat

text \<open>
  One variadic argument, after the default argument promotions: a \<open>char *\<close> to a
  NUL-terminated string (its contents), an \<open>int\<close> or \<open>unsigned int\<close>, a 64-bit integer
  (\<open>size_t\<close>, \<open>unsigned long long\<close>), any other pointer (its address), a \<open>double\<close> (its bits).
\<close>

datatype va = VStr string | VInt "32 word" | VLong "64 word" | VPtr "64 word" | VDouble "64 word"

text \<open>
  The hardware primitives of \<open>io.h\<close>, which is not among the sources: each constructor is
  one call, with the arguments \<open>io_fuzzer_iterate\<close> passes. The string primitives get the
  scratch buffer \<open>string\<close>; for the writes the call carries the elements that
  \<open>input_read_string*\<close> stored there beforehand.
\<close>

datatype io_call =
    io_read8 "16 word"
  | io_read16 "16 word"
  | io_read32 "16 word"
  | io_read_string8 "16 word" "64 word"
  | io_read_string16 "16 word" "64 word"
  | io_read_string32 "16 word" "64 word"
  | io_write8 "16 word" "8 word"
  | io_write16 "16 word" "16 word"
  | io_write32 "16 word" "32 word"
  | io_write_string8 "16 word" "8 word list" "64 word"
  | io_write_string16 "16 word" "16 word list" "64 word"
  | io_write_string32 "16 word" "32 word list" "64 word"

text \<open>
  What a run does to the outside, in order: a hardware primitive is invoked, the installed
  log handler is called (stream, format, variadic arguments), the installed error handler
  is called (status, error, format, variadic arguments).
\<close>

datatype event =
    Invoke io_call
  | Log "FILE option" string "va list"
  | Report int int string "va list"

type_synonym io_fuzzer_error_handler_t = "int \<Rightarrow> int \<Rightarrow> string \<Rightarrow> va list \<Rightarrow> string \<times> (failure + unit)"
type_synonym io_fuzzer_log_handler_t = "FILE option \<Rightarrow> string \<Rightarrow> va list \<Rightarrow> failure + string"

text \<open>
  \<open>struct _io_fuzzer\<close>. \<open>ports\<close> is a null pointer or an array of C \<open>int\<close> (32 bits, read
  signed with \<open>sint\<close>); \<open>num_ports\<close> is a \<open>size_t\<close>.
\<close>

record io_fuzzer =
  ports :: "32 word list option"
  num_ports :: "64 word"
  log_handler :: "io_fuzzer_log_handler_t option"
  log_stream :: "FILE option"

text \<open>The file-static \<open>error_handler\<close>, initially null.\<close>

record globals =
  error_handler :: "io_fuzzer_error_handler_t option"

definition initial_globals :: globals where
  "initial_globals = \<lparr>error_handler = None\<rparr>"

text \<open>The parts of the C library whose results the program prints and the model does not compute.\<close>

record libc =
  printf_f :: "64 word \<Rightarrow> string"
  vformat :: "string \<Rightarrow> va list \<Rightarrow> string"
  strerror :: "int \<Rightarrow> string"

text \<open>
  Modelled from the spec: \<open>input.h\<close> and its implementation are not among the sources. The
  input-derivation engine is a parameter of the model: a cursor type \<open>'s\<close> and one function
  per entry point that \<open>io_fuzzer_iterate\<close> calls, each returning the value and the moved
  cursor. \<open>input_derive_range\<close> returns an integer that the call sites convert;
  \<open>input_read8/16/32\<close> return a scalar of their width ("a 16-bit count (0..65535)");
  \<open>input_read_string*\<close> get the element count and return the elements they store in the
  buffer.
\<close>

record 's input_ops =
  input_derive_range :: "'s \<Rightarrow> int \<Rightarrow> int \<Rightarrow> int \<times> 's"
  input_read8 :: "'s \<Rightarrow> 8 word \<times> 's"
  input_read16 :: "'s \<Rightarrow> 16 word \<times> 's"
  input_read32 :: "'s \<Rightarrow> 32 word \<times> 's"
  input_read_string8 :: "'s \<Rightarrow> 64 word \<Rightarrow> 8 word list \<times> 's"
  input_read_string16 :: "'s \<Rightarrow> 64 word \<Rightarrow> 16 word list \<times> 's"
  input_read_string32 :: "'s \<Rightarrow> 64 word \<Rightarrow> 32 word list \<times> 's"

text \<open>The result of one iteration: how it ended, what it did, where the cursor stands.\<close>

record 's outcome =
  status :: "failure + unit"
  trace :: "event list"
  cursor :: 's

section \<open>The library: \<open>io_fuzzer.c\<close>\<close>

definition MAX_PORTS :: int where
  "MAX_PORTS = 65536"

definition UINT16_MAX :: nat where
  "UINT16_MAX = 65535"

definition MAX_STRING :: nat where
  "MAX_STRING = 4 * UINT16_MAX"

datatype calloc_result = Allocated | Failed int

definition io_fuzzer_error :: "globals \<Rightarrow> int \<Rightarrow> int \<Rightarrow> string \<Rightarrow> va list \<Rightarrow> event list \<times> (failure + unit)" where
  "io_fuzzer_error g st err format ap =
     (case error_handler g of
        None \<Rightarrow> ([], Inr ())
      | Some h \<Rightarrow>
          ([Report st err format ap],
           (case snd (h st err format ap) of Inl e \<Rightarrow> Inl (In_handler e) | Inr _ \<Rightarrow> Inr ())))"

text \<open>
  \<open>calloc\<close> either gives a zeroed object or fails and sets \<open>errno\<close>. After a failure the
  code reports and, if the report returns, returns null.
\<close>

definition io_fuzzer_create ::
  "globals \<Rightarrow> calloc_result \<Rightarrow> 32 word list option \<Rightarrow> 64 word \<Rightarrow> event list \<times> (failure + io_fuzzer option)" where
  "io_fuzzer_create g mem ps n =
     (case mem of
        Failed errno \<Rightarrow>
          (case io_fuzzer_error g 0 errno ''io_fuzzer_create'' [] of
             (evs, Inl e) \<Rightarrow> (evs, Inl e)
           | (evs, Inr _) \<Rightarrow> (evs, Inr None))
      | Allocated \<Rightarrow>
          ([], Inr (Some \<lparr>ports = ps, num_ports = n, log_handler = None, log_stream = None\<rparr>)))"

definition io_fuzzer_log :: "io_fuzzer \<Rightarrow> string \<Rightarrow> va list \<Rightarrow> event list \<times> (failure + unit)" where
  "io_fuzzer_log f format ap =
     (case log_handler f of
        None \<Rightarrow> ([], Inr ())
      | Some h \<Rightarrow>
          ([Log (log_stream f) format ap],
           (case h (log_stream f) format ap of Inl e \<Rightarrow> Inl (In_handler e) | Inr _ \<Rightarrow> Inr ())))"

definition io_fuzzer_set_error_handler ::
  "io_fuzzer_error_handler_t option \<Rightarrow> globals \<Rightarrow> io_fuzzer_error_handler_t option \<times> globals" where
  "io_fuzzer_set_error_handler handler g =
     (let previous_handler = error_handler g
      in (previous_handler, g\<lparr>error_handler := handler\<rparr>))"

definition io_fuzzer_set_log_handler ::
  "io_fuzzer \<Rightarrow> io_fuzzer_log_handler_t option \<Rightarrow> io_fuzzer_log_handler_t option \<times> io_fuzzer" where
  "io_fuzzer_set_log_handler f handler =
     (let previous_handler = log_handler f
      in (previous_handler, f\<lparr>log_handler := handler\<rparr>))"

definition io_fuzzer_set_log_stream :: "io_fuzzer \<Rightarrow> FILE option \<Rightarrow> FILE option \<times> io_fuzzer" where
  "io_fuzzer_set_log_stream f stream =
     (let previous_stream = log_stream f
      in (previous_stream, f\<lparr>log_stream := stream\<rparr>))"

subsection \<open>\<open>io_fuzzer_iterate\<close>\<close>

text \<open>
  Lines 69 to 75: the port. \<open>uint16_t port = ...\<close> keeps the low 16 bits of what is
  assigned, of the derived value as of the \<open>int\<close> read from \<open>ports\<close>;
  \<open>size_t port_num = ...\<close> keeps the low 64 bits.
\<close>

definition iterate_port :: "'s input_ops \<Rightarrow> io_fuzzer \<Rightarrow> 's \<Rightarrow> failure + (16 word \<times> 's)" where
  "iterate_port I f stream =
     (if ports f = None \<or> num_ports f = 0 then
        (let (r, s) = input_derive_range I stream 0 (MAX_PORTS - 1)
         in Inr (word_of_int r, s))
      else
        (let (r, s) = input_derive_range I stream 0 (uint (num_ports f - 1));
             port_num = (word_of_int r :: 64 word)
         in if unat port_num < length (the (ports f))
            then Inr (word_of_int (sint (the (ports f) ! unat port_num)), s)
            else Inl Ports_out_of_range))"

text \<open>
  Whether \<open>count\<close> elements of \<open>width\<close> bytes lie inside \<open>uint8_t string[MAX_STRING]\<close>.
\<close>

definition string_fits :: "nat \<Rightarrow> 64 word \<Rightarrow> bool" where
  "string_fits width count = (unat count * width \<le> MAX_STRING)"

text \<open>
  The tail every case of the switch shares: \<open>io_fuzzer_log(...); io_...(...); break;\<close>.
  The primitive is reached when the log handler returned; \<open>fits\<close> says whether the
  primitive's buffer lies inside \<open>string\<close>.
\<close>

definition log_then_invoke :: "io_fuzzer \<Rightarrow> string \<Rightarrow> va list \<Rightarrow> bool \<Rightarrow> io_call \<Rightarrow> 's \<Rightarrow> 's outcome" where
  "log_then_invoke f format ap fits call s =
     (case io_fuzzer_log f format ap of
        (evs, Inl e) \<Rightarrow> \<lparr>status = Inl e, trace = evs, cursor = s\<rparr>
      | (evs, Inr _) \<Rightarrow>
          if fits then \<lparr>status = Inr (), trace = evs @ [Invoke call], cursor = s\<rparr>
          else \<lparr>status = Inl String_out_of_range, trace = evs, cursor = s\<rparr>)"

text \<open>
  Lines 77 to 170: the switch on the selector. \<open>string\<close> is the address of the scratch
  buffer; its contents start uninitialised.
\<close>

definition iterate_switch :: "'s input_ops \<Rightarrow> 64 word \<Rightarrow> io_fuzzer \<Rightarrow> 16 word \<Rightarrow> int \<Rightarrow> 's \<Rightarrow> 's outcome" where
  "iterate_switch I string f port sel stream =
     (if sel = 0 then
        log_then_invoke f ''su'' [VStr ''function'', VStr ''io_read16'', VStr ''port'', VInt (ucast port)]
          True (io_read16 port) stream
      else if sel = 1 then
        log_then_invoke f ''su'' [VStr ''function'', VStr ''io_read32'', VStr ''port'', VInt (ucast port)]
          True (io_read32 port) stream
      else if sel = 2 then
        log_then_invoke f ''su'' [VStr ''function'', VStr ''io_read8'', VStr ''port'', VInt (ucast port)]
          True (io_read8 port) stream
      else if sel = 3 then
        (let (c, s) = input_read16 I stream; count = (ucast c :: 64 word)
         in log_then_invoke f ''suuu''
              [VStr ''function'', VStr ''io_read_string16'', VStr ''port'', VInt (ucast port),
               VStr ''string'', VPtr string, VStr ''count'', VLong count]
              (string_fits 2 count) (io_read_string16 port count) s)
      else if sel = 4 then
        (let (c, s) = input_read16 I stream; count = (ucast c :: 64 word)
         in log_then_invoke f ''suuu''
              [VStr ''function'', VStr ''io_read_string32'', VStr ''port'', VInt (ucast port),
               VStr ''string'', VPtr string, VStr ''count'', VLong count]
              (string_fits 4 count) (io_read_string32 port count) s)
      else if sel = 5 then
        (let (c, s) = input_read16 I stream; count = (ucast c :: 64 word)
         in log_then_invoke f ''suuu''
              [VStr ''function'', VStr ''io_read_string8'', VStr ''port'', VInt (ucast port),
               VStr ''string'', VPtr string, VStr ''count'', VLong count]
              (string_fits 1 count) (io_read_string8 port count) s)
      else if sel = 6 then
        (let (v, s) = input_read16 I stream
         in log_then_invoke f ''suu''
              [VStr ''function'', VStr ''io_write16'', VStr ''port'', VInt (ucast port),
               VStr ''value'', VInt (ucast v)]
              True (io_write16 port v) s)
      else if sel = 7 then
        (let (v, s) = input_read32 I stream
         in log_then_invoke f ''suu''
              [VStr ''function'', VStr ''io_write32'', VStr ''port'', VInt (ucast port),
               VStr ''value'', VInt v]
              True (io_write32 port v) s)
      else if sel = 8 then
        (let (v, s) = input_read8 I stream
         in log_then_invoke f ''suu''
              [VStr ''function'', VStr ''io_write8'', VStr ''port'', VInt (ucast port),
               VStr ''value'', VInt (ucast v)]
              True (io_write8 port v) s)
      else if sel = 9 then
        (let (c, s1) = input_read16 I stream; count = (ucast c :: 64 word)
         in if \<not> string_fits 2 count
            then \<lparr>status = Inl String_out_of_range, trace = [], cursor = s1\<rparr>
            else
              (let (xs, s) = input_read_string16 I s1 count
               in log_then_invoke f ''suuu''
                    [VStr ''function'', VStr ''io_write_string16'', VStr ''port'', VInt (ucast port),
                     VStr ''string'', VPtr string, VStr ''count'', VLong count]
                    True (io_write_string16 port xs count) s))
      else if sel = 10 then
        (let (c, s1) = input_read16 I stream; count = (ucast c :: 64 word)
         in if \<not> string_fits 4 count
            then \<lparr>status = Inl String_out_of_range, trace = [], cursor = s1\<rparr>
            else
              (let (xs, s) = input_read_string32 I s1 count
               in log_then_invoke f ''suuu''
                    [VStr ''function'', VStr ''io_write_string32'', VStr ''port'', VInt (ucast port),
                     VStr ''string'', VPtr string, VStr ''count'', VLong count]
                    True (io_write_string32 port xs count) s))
      else if sel = 11 then
        (let (c, s1) = input_read16 I stream; count = (ucast c :: 64 word)
         in if \<not> string_fits 1 count
            then \<lparr>status = Inl String_out_of_range, trace = [], cursor = s1\<rparr>
            else
              (let (xs, s) = input_read_string8 I s1 count
               in log_then_invoke f ''suuu''
                    [VStr ''function'', VStr ''io_write_string8'', VStr ''port'', VInt (ucast port),
                     VStr ''string'', VPtr string, VStr ''count'', VLong count]
                    True (io_write_string8 port xs count) s))
      else \<lparr>status = Inl SIGABRT, trace = [], cursor = stream\<rparr>)"

definition io_fuzzer_iterate :: "'s input_ops \<Rightarrow> 64 word \<Rightarrow> io_fuzzer \<Rightarrow> 's \<Rightarrow> 's outcome" where
  "io_fuzzer_iterate I string f stream =
     (case iterate_port I f stream of
        Inl e \<Rightarrow> \<lparr>status = Inl e, trace = [], cursor = stream\<rparr>
      | Inr (port, s1) \<Rightarrow>
          (let (sel, s2) = input_derive_range I s1 0 11
           in iterate_switch I string f port sel s2))"

section \<open>The driver's handlers: \<open>main.c\<close>\<close>

definition default_error_handler :: "libc \<Rightarrow> io_fuzzer_error_handler_t" where
  "default_error_handler L st err format ap =
     (vformat L format ap @ (if err \<noteq> 0 then '': '' @ strerror L err @ [CHR 0x0A] else []),
      Inl SIGABRT)"

text \<open>
  \<open>va_arg\<close>. On x86-64, the platform of \<open>sys/io.h\<close>, each integer or pointer argument
  fills an eight-byte slot, and fetching it as \<open>unsigned int\<close> reads the low four bytes;
  this is how the \<open>u\<close> tag prints the \<open>size_t\<close> and the pointer that \<open>io_fuzzer_iterate\<close>
  passes. A fetch that would need an address or bits the model does not have is \<open>None\<close>.
\<close>

fun va_arg_string :: "va list \<Rightarrow> (string \<times> va list) option" where
  "va_arg_string (VStr s # ap) = Some (s, ap)"
| "va_arg_string _ = None"

fun va_arg_int :: "va list \<Rightarrow> (32 word \<times> va list) option" where
  "va_arg_int (VInt w # ap) = Some (w, ap)"
| "va_arg_int (VLong w # ap) = Some (ucast w, ap)"
| "va_arg_int (VPtr w # ap) = Some (ucast w, ap)"
| "va_arg_int _ = None"

fun va_arg_long :: "va list \<Rightarrow> (64 word \<times> va list) option" where
  "va_arg_long (VLong w # ap) = Some (w, ap)"
| "va_arg_long (VPtr w # ap) = Some (w, ap)"
| "va_arg_long _ = None"

fun va_arg_double :: "va list \<Rightarrow> (64 word \<times> va list) option" where
  "va_arg_double (VDouble w # ap) = Some (w, ap)"
| "va_arg_double _ = None"

text \<open>The conversions of \<open>fprintf\<close>: digits in a base, then each directive the handler uses.\<close>

definition digit_char :: "nat \<Rightarrow> char" where
  "digit_char d = ''0123456789abcdef'' ! d"

function digits :: "nat \<Rightarrow> nat \<Rightarrow> string" where
  "digits b n = (if b < 2 \<or> n < b then [digit_char n] else digits b (n div b) @ [digit_char (n mod b)])"
  by pat_completeness auto
termination
  by (relation "measure (\<lambda>(b, n). n)") auto

declare digits.simps [simp del]

definition fmt_u :: "'a::len word \<Rightarrow> string" where
  "fmt_u w = digits 10 (unat w)"

definition fmt_d :: "32 word \<Rightarrow> string" where
  "fmt_d w = (if sint w < 0 then ''-'' @ digits 10 (nat (- sint w)) else digits 10 (nat (sint w)))"

definition fmt_o :: "32 word \<Rightarrow> string" where
  "fmt_o w = digits 8 (unat w)"

definition fmt_x :: "32 word \<Rightarrow> string" where
  "fmt_x w = digits 16 (unat w)"

definition fmt_p :: "64 word \<Rightarrow> string" where
  "fmt_p w = (if w = 0 then ''(nil)'' else ''0x'' @ digits 16 (unat w))"

text \<open>
  The switch of \<open>default_log_handler\<close> on one tag: the text printed for the value and the
  arguments left.
\<close>

definition log_value :: "libc \<Rightarrow> char \<Rightarrow> va list \<Rightarrow> failure + (string \<times> va list)" where
  \<open>log_value L tag ap =
     (if tag = CHR ''c'' then
        (case va_arg_int ap of None \<Rightarrow> Inl Vararg_mismatch
         | Some (v, ap') \<Rightarrow> Inr (''"'' @ [char_of (unat v)] @ ''"'', ap'))
      else if tag = CHR ''d'' then
        (case va_arg_int ap of None \<Rightarrow> Inl Vararg_mismatch
         | Some (v, ap') \<Rightarrow> Inr (fmt_d v, ap'))
      else if tag = CHR ''f'' then
        (case va_arg_double ap of None \<Rightarrow> Inl Vararg_mismatch
         | Some (v, ap') \<Rightarrow> Inr (printf_f L v, ap'))
      else if tag = CHR ''o'' then
        (case va_arg_int ap of None \<Rightarrow> Inl Vararg_mismatch
         | Some (v, ap') \<Rightarrow> Inr (fmt_o v, ap'))
      else if tag = CHR ''p'' then
        (case va_arg_long ap of None \<Rightarrow> Inl Vararg_mismatch
         | Some (v, ap') \<Rightarrow> Inr (fmt_p v, ap'))
      else if tag = CHR ''q'' then
        (case va_arg_long ap of None \<Rightarrow> Inl Vararg_mismatch
         | Some (v, ap') \<Rightarrow> Inr (fmt_u v, ap'))
      else if tag = CHR ''s'' then
        (case va_arg_string ap of None \<Rightarrow> Inl Vararg_mismatch
         | Some (v, ap') \<Rightarrow> Inr (''"'' @ v @ ''"'', ap'))
      else if tag = CHR ''u'' then
        (case va_arg_int ap of None \<Rightarrow> Inl Vararg_mismatch
         | Some (v, ap') \<Rightarrow> Inr (fmt_u v, ap'))
      else if tag = CHR ''x'' then
        (case va_arg_int ap of None \<Rightarrow> Inl Vararg_mismatch
         | Some (v, ap') \<Rightarrow> Inr (fmt_x v, ap'))
      else if tag = CHR ''z'' then
        (case va_arg_long ap of None \<Rightarrow> Inl Vararg_mismatch
         | Some (v, ap') \<Rightarrow> Inr (fmt_u v, ap'))
      else Inl SIGABRT)\<close>

text \<open>
  The loop over the format, from index \<open>i\<close>: the separator, the key, the value. The text
  is what the loop prints from \<open>i\<close> on when it runs to the end of the format.
\<close>

fun log_fields :: "libc \<Rightarrow> nat \<Rightarrow> string \<Rightarrow> va list \<Rightarrow> failure + string" where
  \<open>log_fields L i [] ap = Inr []\<close>
| \<open>log_fields L i (tag # format) ap =
     (case va_arg_string ap of
        None \<Rightarrow> Inl Vararg_mismatch
      | Some (key, ap1) \<Rightarrow>
          (case log_value L tag ap1 of
             Inl e \<Rightarrow> Inl e
           | Inr (text, ap2) \<Rightarrow>
               (case log_fields L (i + 1) format ap2 of
                  Inl e \<Rightarrow> Inl e
                | Inr rest \<Rightarrow>
                    Inr ((if i > 0 then '', '' else []) @ ''"'' @ key @ ''": '' @ text @ rest))))\<close>

text \<open>
  \<open>now\<close> is what \<open>time(NULL)\<close> returns; it is cast to \<open>unsigned int\<close> and printed with
  \<open>%d\<close>. The record reaches the stream when the handler gets to \<open>fflush\<close>; before an
  \<open>abort()\<close> nothing is flushed.
\<close>

definition default_log_handler :: "libc \<Rightarrow> 64 word \<Rightarrow> io_fuzzer_log_handler_t" where
  \<open>default_log_handler L now stream format ap =
     (case stream of
        None \<Rightarrow> Inl Null_stream
      | Some fd \<Rightarrow>
          (case log_fields L 0 format ap of
             Inl e \<Rightarrow> Inl e
           | Inr body \<Rightarrow>
               Inr (''{ '' @ ''"time": '' @ fmt_d (ucast now) @ '','' @ body @ '' }'' @ [CHR 0x0A])))\<close>

section \<open>Reading a trace\<close>

fun invocations :: "event list \<Rightarrow> io_call list" where
  "invocations [] = []"
| "invocations (Invoke c # es) = c # invocations es"
| "invocations (_ # es) = invocations es"

fun log_calls :: "event list \<Rightarrow> (FILE option \<times> string \<times> va list) list" where
  "log_calls [] = []"
| "log_calls (Log st format ap # es) = (st, format, ap) # log_calls es"
| "log_calls (_ # es) = log_calls es"

fun reports :: "event list \<Rightarrow> (int \<times> int \<times> string \<times> va list) list" where
  "reports [] = []"
| "reports (Report st err format ap # es) = (st, err, format, ap) # reports es"
| "reports (_ # es) = reports es"

text \<open>
  The value passed after a key in the variadic arguments of a log call, which alternate
  key and value.
\<close>

fun va_field :: "string \<Rightarrow> va list \<Rightarrow> va option" where
  "va_field k (VStr k' # v # ap) = (if k = k' then Some v else va_field k ap)"
| "va_field k _ = None"

text \<open>
  The two orders a trace can have. \<open>log_only_after_invoke seen\<close>: every log call comes
  after some primitive invocation (\<open>seen\<close>: one has happened already).
  \<open>log_only_before_invoke seen\<close>: no log call comes after a primitive invocation.
\<close>

fun log_only_after_invoke :: "bool \<Rightarrow> event list \<Rightarrow> bool" where
  "log_only_after_invoke seen [] = True"
| "log_only_after_invoke seen (Invoke c # es) = log_only_after_invoke True es"
| "log_only_after_invoke seen (Log st format ap # es) = (seen \<and> log_only_after_invoke seen es)"
| "log_only_after_invoke seen (Report st err format ap # es) = log_only_after_invoke seen es"

fun log_only_before_invoke :: "bool \<Rightarrow> event list \<Rightarrow> bool" where
  "log_only_before_invoke seen [] = True"
| "log_only_before_invoke seen (Invoke c # es) = log_only_before_invoke True es"
| "log_only_before_invoke seen (Log st format ap # es) = (\<not> seen \<and> log_only_before_invoke seen es)"
| "log_only_before_invoke seen (Report st err format ap # es) = log_only_before_invoke seen es"

section \<open>The specification's tables\<close>

text \<open>The operation catalog as the specification tabulates it: selector to width and kind.\<close>

datatype kind = Scalar_read | Scalar_write | String_read | String_write

definition catalog :: "int \<Rightarrow> (nat \<times> kind) option" where
  "catalog sel =
     (if sel = 0 then Some (16, Scalar_read)
      else if sel = 1 then Some (32, Scalar_read)
      else if sel = 2 then Some (8, Scalar_read)
      else if sel = 3 then Some (16, String_read)
      else if sel = 4 then Some (32, String_read)
      else if sel = 5 then Some (8, String_read)
      else if sel = 6 then Some (16, Scalar_write)
      else if sel = 7 then Some (32, Scalar_write)
      else if sel = 8 then Some (8, Scalar_write)
      else if sel = 9 then Some (16, String_write)
      else if sel = 10 then Some (32, String_write)
      else if sel = 11 then Some (8, String_write)
      else None)"

text \<open>Width, kind, C name and port of a primitive call.\<close>

fun call_width :: "io_call \<Rightarrow> nat" where
  "call_width (io_read8 p) = 8"
| "call_width (io_read16 p) = 16"
| "call_width (io_read32 p) = 32"
| "call_width (io_read_string8 p n) = 8"
| "call_width (io_read_string16 p n) = 16"
| "call_width (io_read_string32 p n) = 32"
| "call_width (io_write8 p v) = 8"
| "call_width (io_write16 p v) = 16"
| "call_width (io_write32 p v) = 32"
| "call_width (io_write_string8 p xs n) = 8"
| "call_width (io_write_string16 p xs n) = 16"
| "call_width (io_write_string32 p xs n) = 32"

fun call_kind :: "io_call \<Rightarrow> kind" where
  "call_kind (io_read8 p) = Scalar_read"
| "call_kind (io_read16 p) = Scalar_read"
| "call_kind (io_read32 p) = Scalar_read"
| "call_kind (io_read_string8 p n) = String_read"
| "call_kind (io_read_string16 p n) = String_read"
| "call_kind (io_read_string32 p n) = String_read"
| "call_kind (io_write8 p v) = Scalar_write"
| "call_kind (io_write16 p v) = Scalar_write"
| "call_kind (io_write32 p v) = Scalar_write"
| "call_kind (io_write_string8 p xs n) = String_write"
| "call_kind (io_write_string16 p xs n) = String_write"
| "call_kind (io_write_string32 p xs n) = String_write"

fun call_name :: "io_call \<Rightarrow> string" where
  "call_name (io_read8 p) = ''io_read8''"
| "call_name (io_read16 p) = ''io_read16''"
| "call_name (io_read32 p) = ''io_read32''"
| "call_name (io_read_string8 p n) = ''io_read_string8''"
| "call_name (io_read_string16 p n) = ''io_read_string16''"
| "call_name (io_read_string32 p n) = ''io_read_string32''"
| "call_name (io_write8 p v) = ''io_write8''"
| "call_name (io_write16 p v) = ''io_write16''"
| "call_name (io_write32 p v) = ''io_write32''"
| "call_name (io_write_string8 p xs n) = ''io_write_string8''"
| "call_name (io_write_string16 p xs n) = ''io_write_string16''"
| "call_name (io_write_string32 p xs n) = ''io_write_string32''"

fun call_port :: "io_call \<Rightarrow> 16 word" where
  "call_port (io_read8 p) = p"
| "call_port (io_read16 p) = p"
| "call_port (io_read32 p) = p"
| "call_port (io_read_string8 p n) = p"
| "call_port (io_read_string16 p n) = p"
| "call_port (io_read_string32 p n) = p"
| "call_port (io_write8 p v) = p"
| "call_port (io_write16 p v) = p"
| "call_port (io_write32 p v) = p"
| "call_port (io_write_string8 p xs n) = p"
| "call_port (io_write_string16 p xs n) = p"
| "call_port (io_write_string32 p xs n) = p"

text \<open>
  The log record shape of the specification: \<open>time\<close>, \<open>function\<close>, \<open>port\<close>, then the
  operation's own fields, each an unsigned decimal, in the punctuation the handler prints.
\<close>

definition record_text :: "64 word \<Rightarrow> string \<Rightarrow> 32 word \<Rightarrow> (string \<times> 32 word) list \<Rightarrow> string" where
  \<open>record_text now name port extra =
     ''{ "time": '' @ fmt_d (ucast now) @ '',"function": "'' @ name @ ''", "port": '' @ fmt_u port
       @ concat (map (\<lambda>(k, v). '', "'' @ k @ ''": '' @ fmt_u v) extra) @ '' }'' @ [CHR 0x0A]\<close>

text \<open>
  Balanced delimiters: reading left to right, \<open>in_string\<close> says whether a double quote is
  open and \<open>depth\<close> counts the open braces; at the end no quote and no brace is open.
\<close>

fun balanced :: "bool \<Rightarrow> nat \<Rightarrow> string \<Rightarrow> bool" where
  \<open>balanced in_string depth [] = (\<not> in_string \<and> depth = 0)\<close>
| \<open>balanced in_string depth (c # cs) =
     (if c = CHR ''"'' then balanced (\<not> in_string) depth cs
      else if in_string then balanced True depth cs
      else if c = CHR ''{'' then balanced False (depth + 1) cs
      else if c = CHR ''}'' then depth > 0 \<and> balanced False (depth - 1) cs
      else balanced False depth cs)\<close>

section \<open>Two input engines to run the model on\<close>

text \<open>
  Modelled from the spec: the engine of \<open>input.c\<close> is not among the sources. \<open>byte_input\<close>
  keeps the contract of the specification on a list of bytes: a fixed-width read takes
  width/8 bytes, little-endian, a buffer read takes count elements, a bounded value is
  reduced into \<open>[min, max]\<close>, and an exhausted stream reads as zeros. \<open>raw_input\<close> is a
  faulty engine: its \<open>input_derive_range\<close> returns the next byte as it is.
\<close>

definition next_byte :: "8 word list \<Rightarrow> 8 word \<times> 8 word list" where
  "next_byte s = (case s of [] \<Rightarrow> (0, []) | b # bs \<Rightarrow> (b, bs))"

definition bytes_read16 :: "8 word list \<Rightarrow> 16 word \<times> 8 word list" where
  "bytes_read16 s =
     (let (b0, s1) = next_byte s; (b1, s2) = next_byte s1
      in (word_of_nat (unat b0 + 256 * unat b1), s2))"

definition bytes_read32 :: "8 word list \<Rightarrow> 32 word \<times> 8 word list" where
  "bytes_read32 s =
     (let (w0, s1) = bytes_read16 s; (w1, s2) = bytes_read16 s1
      in (word_of_nat (unat w0 + 65536 * unat w1), s2))"

fun read_elems :: "('s \<Rightarrow> 'a \<times> 's) \<Rightarrow> nat \<Rightarrow> 's \<Rightarrow> 'a list \<times> 's" where
  "read_elems rd 0 s = ([], s)"
| "read_elems rd (Suc n) s =
     (let (x, s1) = rd s; (xs, s2) = read_elems rd n s1 in (x # xs, s2))"

definition bytes_derive_range :: "8 word list \<Rightarrow> int \<Rightarrow> int \<Rightarrow> int \<times> 8 word list" where
  "bytes_derive_range s lo hi =
     (if hi < lo then (lo, s)
      else (let (w, s1) = bytes_read32 s in (lo + uint w mod (hi - lo + 1), s1)))"

definition byte_input :: "8 word list input_ops" where
  "byte_input =
     \<lparr>input_derive_range = bytes_derive_range,
      input_read8 = next_byte,
      input_read16 = bytes_read16,
      input_read32 = bytes_read32,
      input_read_string8 = (\<lambda>s n. read_elems next_byte (unat n) s),
      input_read_string16 = (\<lambda>s n. read_elems bytes_read16 (unat n) s),
      input_read_string32 = (\<lambda>s n. read_elems bytes_read32 (unat n) s)\<rparr>"

definition raw_input :: "8 word list input_ops" where
  "raw_input =
     byte_input\<lparr>input_derive_range := (\<lambda>s lo hi. let (b, s1) = next_byte s in (uint b, s1))\<rparr>"

text \<open>A C library whose only use is to run the model: \<open>%f\<close> and \<open>strerror\<close> print a placeholder.\<close>

definition test_libc :: libc where
  "test_libc = \<lparr>printf_f = (\<lambda>_. ''0.000000''), vformat = (\<lambda>format ap. format), strerror = (\<lambda>_. ''error'')\<rparr>"

section \<open>The dispatcher of the specification\<close>

text \<open>
  The specification splits an iteration into deriving the operands, logging and invoking.
  \<open>derive_operands\<close> is the first step alone, from the specification's catalog table:
  which primitive call a selector yields on a port and where it leaves the cursor;
  \<open>None\<close> outside the catalog. \<open>log_format\<close> and \<open>log_arguments\<close> are the log call that
  describes a primitive call. The lemma \<open>iterate_switch_refines\<close> below proves that the
  switch of the source is this dispatcher.
\<close>

definition derive_operands :: "'s input_ops \<Rightarrow> 16 word \<Rightarrow> int \<Rightarrow> 's \<Rightarrow> (io_call \<times> 's) option" where
  "derive_operands I port sel stream =
     (if sel = 0 then Some (io_read16 port, stream)
      else if sel = 1 then Some (io_read32 port, stream)
      else if sel = 2 then Some (io_read8 port, stream)
      else if sel = 3 then
        (let (c, s) = input_read16 I stream in Some (io_read_string16 port (ucast c), s))
      else if sel = 4 then
        (let (c, s) = input_read16 I stream in Some (io_read_string32 port (ucast c), s))
      else if sel = 5 then
        (let (c, s) = input_read16 I stream in Some (io_read_string8 port (ucast c), s))
      else if sel = 6 then
        (let (v, s) = input_read16 I stream in Some (io_write16 port v, s))
      else if sel = 7 then
        (let (v, s) = input_read32 I stream in Some (io_write32 port v, s))
      else if sel = 8 then
        (let (v, s) = input_read8 I stream in Some (io_write8 port v, s))
      else if sel = 9 then
        (let (c, s1) = input_read16 I stream; (xs, s) = input_read_string16 I s1 (ucast c)
         in Some (io_write_string16 port xs (ucast c), s))
      else if sel = 10 then
        (let (c, s1) = input_read16 I stream; (xs, s) = input_read_string32 I s1 (ucast c)
         in Some (io_write_string32 port xs (ucast c), s))
      else if sel = 11 then
        (let (c, s1) = input_read16 I stream; (xs, s) = input_read_string8 I s1 (ucast c)
         in Some (io_write_string8 port xs (ucast c), s))
      else None)"

fun call_fields :: "64 word \<Rightarrow> io_call \<Rightarrow> (string \<times> va) list" where
  "call_fields string (io_read8 p) = []"
| "call_fields string (io_read16 p) = []"
| "call_fields string (io_read32 p) = []"
| "call_fields string (io_read_string8 p n) = [(''string'', VPtr string), (''count'', VLong n)]"
| "call_fields string (io_read_string16 p n) = [(''string'', VPtr string), (''count'', VLong n)]"
| "call_fields string (io_read_string32 p n) = [(''string'', VPtr string), (''count'', VLong n)]"
| "call_fields string (io_write8 p v) = [(''value'', VInt (ucast v))]"
| "call_fields string (io_write16 p v) = [(''value'', VInt (ucast v))]"
| "call_fields string (io_write32 p v) = [(''value'', VInt v)]"
| "call_fields string (io_write_string8 p xs n) = [(''string'', VPtr string), (''count'', VLong n)]"
| "call_fields string (io_write_string16 p xs n) = [(''string'', VPtr string), (''count'', VLong n)]"
| "call_fields string (io_write_string32 p xs n) = [(''string'', VPtr string), (''count'', VLong n)]"

definition log_format :: "io_call \<Rightarrow> string" where
  "log_format c =
     (case call_kind c of
        Scalar_read \<Rightarrow> ''su''
      | Scalar_write \<Rightarrow> ''suu''
      | String_read \<Rightarrow> ''suuu''
      | String_write \<Rightarrow> ''suuu'')"

definition log_arguments :: "64 word \<Rightarrow> io_call \<Rightarrow> va list" where
  "log_arguments string c =
     [VStr ''function'', VStr (call_name c), VStr ''port'', VInt (ucast (call_port c))]
     @ concat (map (\<lambda>(k, v). [VStr k, v]) (call_fields string c))"

text \<open>The type tags the specification lists as recognised.\<close>

definition recognised_tags :: "char set" where
  "recognised_tags = set ''cdfopqsuxz''"

section \<open>Instances to run the model on\<close>

text \<open>
  \<open>demo_fuzzer\<close> is what \<open>main\<close> builds for \<open>--ports=0x60\<close>; \<open>quiet_fuzzer\<close> is the same
  with no log handler installed; \<open>wide_fuzzer\<close> has a port list whose entry does not fit
  16 bits; \<open>open_fuzzer\<close> has no port list.
\<close>

definition demo_fuzzer :: io_fuzzer where
  "demo_fuzzer =
     \<lparr>ports = Some [0x60], num_ports = 1,
      log_handler = Some (default_log_handler test_libc 1700000000), log_stream = Some 1\<rparr>"

definition quiet_fuzzer :: io_fuzzer where
  "quiet_fuzzer = \<lparr>ports = Some [0x60], num_ports = 1, log_handler = None, log_stream = None\<rparr>"

definition wide_fuzzer :: io_fuzzer where
  "wide_fuzzer = \<lparr>ports = Some [65537], num_ports = 1, log_handler = None, log_stream = None\<rparr>"

definition open_fuzzer :: io_fuzzer where
  "open_fuzzer = \<lparr>ports = None, num_ports = 0, log_handler = None, log_stream = None\<rparr>"

section \<open>Notions used in the proofs\<close>

text \<open>
  What the \<open>u\<close> tag shows of an argument (the low 32 bits of its slot), the fields of the
  record that describes a primitive call, and the strings without a double quote or a
  brace, which leave \<open>balanced\<close> where it is.
\<close>

fun low32 :: "va \<Rightarrow> 32 word" where
  "low32 (VInt w) = w"
| "low32 (VLong w) = ucast w"
| "low32 (VPtr w) = ucast w"
| "low32 _ = 0"

definition record_fields :: "64 word \<Rightarrow> io_call \<Rightarrow> (string \<times> 32 word) list" where
  "record_fields sp c = map (\<lambda>(k, v). (k, low32 v)) (call_fields sp c)"

definition plain :: "string \<Rightarrow> bool" where
  \<open>plain s = (\<forall>c \<in> set s. c \<noteq> CHR ''"'' \<and> c \<noteq> CHR ''{'' \<and> c \<noteq> CHR ''}'')\<close>

section \<open>The setters\<close>

text \<open>
  Claim C10. Each setter returns the value that was installed before the call and stores
  the new one; \<open>io_fuzzer_set_log_handler\<close> and \<open>io_fuzzer_set_log_stream\<close> leave the
  port list, the number of ports and the field the other one sets as they were.
  \<open>io_fuzzer_set_error_handler\<close> works on the file-static handler alone: no instance is
  among what it reads or writes.
\<close>

theorem setters_return_previous:
  "fst (io_fuzzer_set_error_handler eh g) = error_handler g
   \<and> error_handler (snd (io_fuzzer_set_error_handler eh g)) = eh
   \<and> fst (io_fuzzer_set_log_handler f lh) = log_handler f
   \<and> log_handler (snd (io_fuzzer_set_log_handler f lh)) = lh
   \<and> ports (snd (io_fuzzer_set_log_handler f lh)) = ports f
   \<and> num_ports (snd (io_fuzzer_set_log_handler f lh)) = num_ports f
   \<and> log_stream (snd (io_fuzzer_set_log_handler f lh)) = log_stream f
   \<and> fst (io_fuzzer_set_log_stream f st) = log_stream f
   \<and> log_stream (snd (io_fuzzer_set_log_stream f st)) = st
   \<and> ports (snd (io_fuzzer_set_log_stream f st)) = ports f
   \<and> num_ports (snd (io_fuzzer_set_log_stream f st)) = num_ports f
   \<and> log_handler (snd (io_fuzzer_set_log_stream f st)) = log_handler f"
  by (simp add: io_fuzzer_set_error_handler_def io_fuzzer_set_log_handler_def
      io_fuzzer_set_log_stream_def)

section \<open>The scratch buffer\<close>

lemma unat_count: "unat (ucast (c :: 16 word) :: 64 word) = unat c"
proof -
  have "unat c < 2 ^ 16" using unsigned_less [of c] by simp
  then have "unat c < 2 ^ 64" by simp
  then show ?thesis by (simp add: unsigned_ucast_eq take_bit_nat_eq_self)
qed

lemma count_fits:
  "string_fits 1 (ucast (c :: 16 word)) \<and> string_fits 2 (ucast c) \<and> string_fits 4 (ucast c)"
proof -
  have "unat c < 65536" using unsigned_less [of c] by simp
  then show ?thesis by (simp add: string_fits_def MAX_STRING_def UINT16_MAX_def unat_count)
qed

lemma string_fits_count: "w \<le> 4 \<Longrightarrow> string_fits w (ucast (c :: 16 word))"
proof -
  assume w: "w \<le> 4"
  have "unat c < 65536" using unsigned_less [of c] by simp
  then have "unat c * w \<le> 65535 * 4" using w by (intro mult_le_mono) simp_all
  then show ?thesis by (simp add: string_fits_def MAX_STRING_def UINT16_MAX_def unat_count)
qed

lemma status_log_then_invoke:
  "status (log_then_invoke f format ap fits call s) = Inl String_out_of_range \<Longrightarrow> \<not> fits"
  by (auto simp: log_then_invoke_def io_fuzzer_log_def split: option.splits sum.splits if_splits)

lemma switch_in_buffer:
  "status (iterate_switch I sp f port sel s) \<noteq> Inl String_out_of_range"
  using count_fits
  by (auto simp: iterate_switch_def Let_def split: prod.splits dest!: status_log_then_invoke)

text \<open>
  Claim C9. A count that comes from the 16-bit read is at most 65535, and that many
  elements of 1, 2 or 4 bytes fit the \<open>MAX_STRING = 65535 * 4\<close> bytes of the scratch
  buffer; so no iteration, whatever the engine, the instance and the stream, ends in an
  access outside the buffer.
\<close>

theorem string_operations_stay_in_buffer:
  "status (io_fuzzer_iterate I sp f s) \<noteq> Inl String_out_of_range
   \<and> unat (ucast (c :: 16 word) :: 64 word) \<le> UINT16_MAX
   \<and> string_fits 1 (ucast c) \<and> string_fits 2 (ucast c) \<and> string_fits 4 (ucast c)
   \<and> MAX_STRING = 65535 * 4"
proof -
  have "unat c < 65536" using unsigned_less [of c] by simp
  then have b: "unat (ucast c :: 64 word) \<le> UINT16_MAX"
    by (simp add: UINT16_MAX_def unat_count)
  have "status (io_fuzzer_iterate I sp f s) \<noteq> Inl String_out_of_range"
    by (auto simp: io_fuzzer_iterate_def iterate_port_def Let_def switch_in_buffer
        split: sum.splits prod.splits if_splits)
  with b count_fits [of c] show ?thesis
    by (simp add: MAX_STRING_def UINT16_MAX_def)
qed

section \<open>The switch is the dispatcher\<close>

lemma selector_cases:
  "0 \<le> sel \<Longrightarrow> sel \<le> (11::int) \<Longrightarrow>
     sel = 0 \<or> sel = 1 \<or> sel = 2 \<or> sel = 3 \<or> sel = 4 \<or> sel = 5 \<or> sel = 6 \<or> sel = 7
     \<or> sel = 8 \<or> sel = 9 \<or> sel = 10 \<or> sel = 11"
  by arith

lemma derive_operands_outside:
  "sel < 0 \<or> 11 < sel \<Longrightarrow> derive_operands I port sel s = None"
  by (auto simp: derive_operands_def)

lemma derive_operands_inside:
  assumes "0 \<le> sel" "sel \<le> 11"
  shows "\<exists>c s'. derive_operands I port sel s = Some (c, s')
           \<and> catalog sel = Some (call_width c, call_kind c) \<and> call_port c = port"
  using selector_cases [OF assms]
  by (elim disjE) (simp_all add: derive_operands_def catalog_def split: prod.splits)

lemma iterate_switch_refines:
  "iterate_switch I sp f port sel s =
     (case derive_operands I port sel s of
        None \<Rightarrow> \<lparr>status = Inl SIGABRT, trace = [], cursor = s\<rparr>
      | Some (c, s') \<Rightarrow> log_then_invoke f (log_format c) (log_arguments sp c) True c s')"
  by (simp add: iterate_switch_def derive_operands_def log_format_def log_arguments_def
      string_fits_count Let_def split: prod.splits)

lemma trace_log_then_invoke:
  "trace (log_then_invoke f format ap True c s) =
     (case log_handler f of
        None \<Rightarrow> [Invoke c]
      | Some h \<Rightarrow>
          (case h (log_stream f) format ap of
             Inl e \<Rightarrow> [Log (log_stream f) format ap]
           | Inr _ \<Rightarrow> [Log (log_stream f) format ap, Invoke c]))"
  by (simp add: log_then_invoke_def io_fuzzer_log_def split: option.splits sum.splits)

lemma status_log_then_invoke_True:
  "status (log_then_invoke f format ap True c s) =
     (case log_handler f of
        None \<Rightarrow> Inr ()
      | Some h \<Rightarrow>
          (case h (log_stream f) format ap of Inl e \<Rightarrow> Inl (In_handler e) | Inr _ \<Rightarrow> Inr ()))"
  by (simp add: log_then_invoke_def io_fuzzer_log_def split: option.splits sum.splits)

lemma cursor_log_then_invoke: "cursor (log_then_invoke f format ap fits c s) = s"
  by (simp add: log_then_invoke_def io_fuzzer_log_def split: option.splits sum.splits prod.splits)

lemma function_field: "va_field ''function'' (log_arguments sp c) = Some (VStr (call_name c))"
  by (simp add: log_arguments_def)

lemma port_field: "va_field ''port'' (log_arguments sp c) = Some (VInt (ucast (call_port c)))"
  by (simp add: log_arguments_def)

lemma io_fuzzer_iterate_eq:
  assumes "iterate_port I f s = Inr (port, s1)" and "input_derive_range I s1 0 11 = (sel, s2)"
  shows "io_fuzzer_iterate I sp f s = iterate_switch I sp f port sel s2"
  using assms by (simp add: io_fuzzer_iterate_def)

lemma iterate_port_cong:
  assumes "ports f1 = ports f2" and "num_ports f1 = num_ports f2"
  shows "iterate_port I f1 s = iterate_port I f2 s"
  unfolding iterate_port_def assms by (rule refl)

lemma invocations_log_then_invoke:
  "status (log_then_invoke f format ap True c s) = Inr () \<Longrightarrow>
     invocations (trace (log_then_invoke f format ap True c s)) = [c]"
  by (auto simp: log_then_invoke_def io_fuzzer_log_def split: option.splits sum.splits)

section \<open>What the default log handler prints\<close>

lemma balanced_plain: "plain s \<Longrightarrow> balanced q d (s @ t) = balanced q d t"
proof (induction s)
  case Nil
  show ?case by simp
next
  case (Cons c s)
  from Cons.prems have c: \<open>c \<noteq> CHR ''"''\<close> \<open>c \<noteq> CHR ''{''\<close> \<open>c \<noteq> CHR ''}''\<close> and ps: "plain s"
    by (simp_all add: plain_def)
  have "balanced q d ((c # s) @ t) = balanced q d (s @ t)"
    using c by (cases q) simp_all
  also have "\<dots> = balanced q d t"
    using Cons.IH [OF ps] .
  finally show ?case .
qed

lemma plain_append [simp]: "plain (s @ t) = (plain s \<and> plain t)"
  by (auto simp: plain_def)

lemma plain_Nil: "plain []"
  by (simp add: plain_def)

lemma plain_Cons:
  \<open>plain (c # s) = (c \<noteq> CHR ''"'' \<and> c \<noteq> CHR ''{'' \<and> c \<noteq> CHR ''}'' \<and> plain s)\<close>
  by (auto simp: plain_def)

lemma plain_digit_char: "d < 16 \<Longrightarrow> plain [digit_char d]"
proof -
  assume "d < 16"
  then have "d < length ''0123456789abcdef''" by simp
  then have "digit_char d \<in> set ''0123456789abcdef''"
    unfolding digit_char_def by (rule nth_mem)
  then show ?thesis by (auto simp: plain_def)
qed

lemma plain_digits: "2 \<le> b \<Longrightarrow> b \<le> 16 \<Longrightarrow> plain (digits b n)"
proof (induction b n rule: digits.induct)
  case (1 b n)
  show ?case
  proof (cases "n < b")
    case True
    with 1 show ?thesis by (subst digits.simps) (simp add: plain_digit_char)
  next
    case False
    then have "plain (digits b (n div b))" using 1 by simp
    moreover have "plain [digit_char (n mod b)]"
    proof (rule plain_digit_char)
      have "n mod b < b" using 1(2) by simp
      then show "n mod b < 16" using 1(3) by simp
    qed
    ultimately show ?thesis using False 1(2) by (subst digits.simps) simp
  qed
qed

lemma plain_fmt_u: "plain (fmt_u w)"
  by (simp add: fmt_u_def plain_digits)

lemma plain_fmt_d: "plain (fmt_d w)"
  by (simp add: fmt_d_def plain_digits plain_Cons)

lemma plain_call_name: "plain (call_name c)"
  by (cases c) (simp_all add: plain_Cons plain_Nil)

lemma log_value_u: "log_value L (CHR ''u'') ap = (case va_arg_int ap of None \<Rightarrow> Inl Vararg_mismatch | Some (v, ap') \<Rightarrow> Inr (fmt_u v, ap'))"
  by (simp add: log_value_def)

lemma log_value_s: \<open>log_value L (CHR ''s'') ap = (case va_arg_string ap of None \<Rightarrow> Inl Vararg_mismatch | Some (v, ap') \<Rightarrow> Inr (''"'' @ v @ ''"'', ap'))\<close>
  by (simp add: log_value_def)

lemma default_log_handler_record:
  "default_log_handler L now (Some fd) (log_format c) (log_arguments sp c) =
     Inr (record_text now (call_name c) (ucast (call_port c)) (record_fields sp c))"
  by (cases c)
    (simp_all add: default_log_handler_def log_format_def log_arguments_def log_value_u log_value_s
      record_text_def record_fields_def)

lemma record_fields_keys:
  "map fst (record_fields sp c) \<in> {[], [''value''], [''string'', ''count'']}"
  by (cases c) (simp_all add: record_fields_def)

lemma balanced_record:
  \<open>balanced False 0 (record_text now (call_name c) port (record_fields sp c))\<close>
proof -
  have n: \<open>balanced True 0 (call_name c @ t) = balanced True 0 t\<close> for t
    by (rule balanced_plain [OF plain_call_name])
  have u: \<open>balanced False (Suc 0) (fmt_u w @ t) = balanced False (Suc 0) t\<close> for w :: "32 word" and t
    by (rule balanced_plain [OF plain_fmt_u])
  have d: \<open>balanced False (Suc 0) (fmt_d w @ t) = balanced False (Suc 0) t\<close> for w t
    by (rule balanced_plain [OF plain_fmt_d])
  show ?thesis
    by (cases c) (simp_all add: record_text_def record_fields_def n u d)
qed

lemma log_event_of_iterate:
  assumes "Log st format ap \<in> set (trace (io_fuzzer_iterate I sp f s))"
  shows "\<exists>c. format = log_format c \<and> ap = log_arguments sp c
           \<and> (trace (io_fuzzer_iterate I sp f s) = [Log st format ap]
                \<or> trace (io_fuzzer_iterate I sp f s) = [Log st format ap, Invoke c])"
proof (cases "iterate_port I f s")
  case (Inl e)
  with assms show ?thesis by (simp add: io_fuzzer_iterate_def)
next
  case (Inr ps)
  obtain port s1 where ps: "ps = (port, s1)" by (cases ps)
  obtain sel s2 where d: "input_derive_range I s1 0 11 = (sel, s2)"
    by (cases "input_derive_range I s1 0 11")
  have r: "io_fuzzer_iterate I sp f s = iterate_switch I sp f port sel s2"
    using Inr ps d by (simp add: io_fuzzer_iterate_eq)
  show ?thesis
  proof (cases "derive_operands I port sel s2")
    case None
    with assms r show ?thesis by (simp add: iterate_switch_refines)
  next
    case (Some cs)
    obtain c s' where "cs = (c, s')" by (cases cs)
    with assms r Some show ?thesis
      by (auto simp: iterate_switch_refines trace_log_then_invoke split: option.splits sum.splits)
  qed
qed

lemma log_value_failure:
  "log_value L tag ap = Inl e \<Longrightarrow> e = SIGABRT \<or> e = Vararg_mismatch"
  by (auto simp: log_value_def split: if_splits option.splits)

lemma log_value_unrecognised:
  "tag \<notin> recognised_tags \<Longrightarrow> log_value L tag ap = Inl SIGABRT"
  by (simp add: log_value_def recognised_tags_def)

lemma log_fields_unrecognised:
  "tag \<in> set format \<Longrightarrow> tag \<notin> recognised_tags \<Longrightarrow>
     log_fields L i format ap = Inl SIGABRT \<or> log_fields L i format ap = Inl Vararg_mismatch"
proof (induction format arbitrary: i ap)
  case Nil
  then show ?case by simp
next
  case (Cons t format)
  show ?case
  proof (cases "va_arg_string ap")
    case None
    then show ?thesis by simp
  next
    case (Some k)
    obtain key ap1 where k: "k = (key, ap1)" by (cases k)
    show ?thesis
    proof (cases "log_value L t ap1")
      case (Inl e)
      with Some k log_value_failure [OF Inl] show ?thesis by auto
    next
      case (Inr v)
      obtain shown ap2 where v: "v = (shown, ap2)" by (cases v)
      have "t \<noteq> tag" using Inr log_value_unrecognised [OF Cons.prems(2), of L ap1] by auto
      then have "tag \<in> set format" using Cons.prems(1) by simp
      from Cons.IH [OF this Cons.prems(2), of "i + 1" ap2] Some k Inr v
      show ?thesis by auto
    qed
  qed
qed

section \<open>Word arithmetic of the port\<close>

lemma uint_port: "0 \<le> r \<Longrightarrow> r \<le> 65535 \<Longrightarrow> uint (word_of_int r :: 16 word) = r"
proof -
  assume "0 \<le> r" and "r \<le> 65535"
  then have "take_bit 16 r = r" by (simp add: take_bit_int_eq_self)
  then show ?thesis by (simp add: uint_word_of_int_eq)
qed

lemma uint_port_le: "uint (p :: 16 word) \<le> 65535"
  using uint_bounded [of p] by simp

lemma unat_index:
  assumes "0 \<le> i" and "i < uint (n :: 64 word)"
  shows "unat (word_of_int i :: 64 word) = nat i" and "nat i < unat n"
proof -
  have "uint n < 2 ^ 64" using uint_bounded [of n] by simp
  with assms have "take_bit 64 i = i" by (simp add: take_bit_int_eq_self)
  then have "uint (word_of_int i :: 64 word) = i" by (simp add: uint_word_of_int_eq)
  then show "unat (word_of_int i :: 64 word) = nat i" by (simp only: unat_eq_nat_uint)
  have "unat n = nat (uint n)" by (rule unat_eq_nat_uint)
  with assms show "nat i < unat n" by linarith
qed

lemma uint_pred:
  assumes "(n :: 64 word) \<noteq> 0"
  shows "uint (n - 1) = uint n - 1"
proof -
  have "uint (n - 1) = int (unat (n - 1))" by (rule uint_nat)
  also have "unat (n - 1) = unat n - 1" using assms by (rule unat_minus_one)
  also have "int (unat n - 1) = int (unat n) - 1"
  proof -
    have "0 < unat n" using assms by (simp add: unat_gt_0)
    then show ?thesis by linarith
  qed
  also have "int (unat n) = uint n" by (rule uint_nat [symmetric])
  finally show ?thesis .
qed

section \<open>Runs of the model\<close>

lemmas run_defs =
  iterate_port_def MAX_PORTS_def byte_input_def raw_input_def bytes_derive_range_def
  bytes_read32_def bytes_read16_def next_byte_def demo_fuzzer_def quiet_fuzzer_def
  wide_fuzzer_def

lemma demo_port: "iterate_port byte_input demo_fuzzer [0, 0, 0, 0, 8, 0, 0, 0, 0x41] = Inr (0x60, [8, 0, 0, 0, 0x41])"
  by (simp add: run_defs)

lemma demo_selector: "input_derive_range byte_input [8, 0, 0, 0, 0x41] 0 11 = (8, [0x41])"
  by (simp add: run_defs)

lemma demo_run:
  "io_fuzzer_iterate byte_input sp demo_fuzzer [0, 0, 0, 0, 8, 0, 0, 0, 0x41] =
     \<lparr>status = Inr (),
      trace = [Log (Some 1) ''suu'' [VStr ''function'', VStr ''io_write8'', VStr ''port'', VInt 0x60, VStr ''value'', VInt 0x41],
               Invoke (io_write8 0x60 0x41)],
      cursor = []\<rparr>"
proof -
  have d: "derive_operands byte_input 0x60 8 [0x41] = Some (io_write8 0x60 0x41, [])"
    by (simp add: derive_operands_def run_defs)
  have h: "log_handler demo_fuzzer = Some (default_log_handler test_libc 1700000000)"
    and st: "log_stream demo_fuzzer = Some 1"
    by (simp_all add: demo_fuzzer_def)
  have a: "log_format (io_write8 0x60 0x41) = ''suu''"
    "log_arguments sp (io_write8 0x60 0x41) = [VStr ''function'', VStr ''io_write8'', VStr ''port'', VInt 0x60, VStr ''value'', VInt 0x41]"
    by (simp_all add: log_format_def log_arguments_def)
  have "io_fuzzer_iterate byte_input sp demo_fuzzer [0, 0, 0, 0, 8, 0, 0, 0, 0x41] =
      log_then_invoke demo_fuzzer (log_format (io_write8 0x60 0x41)) (log_arguments sp (io_write8 0x60 0x41)) True (io_write8 0x60 0x41) []"
    using io_fuzzer_iterate_eq [OF demo_port demo_selector] d by (simp add: iterate_switch_refines)
  then show ?thesis
    using default_log_handler_record [of test_libc 1700000000 1 "io_write8 0x60 0x41" sp]
    by (simp add: log_then_invoke_def io_fuzzer_log_def h st a)
qed

lemma quiet_port: "iterate_port byte_input quiet_fuzzer [0, 0, 0, 0, 8, 0, 0, 0, 0x41] = Inr (0x60, [8, 0, 0, 0, 0x41])"
  by (simp add: run_defs)

lemma quiet_run:
  "io_fuzzer_iterate byte_input sp quiet_fuzzer [0, 0, 0, 0, 8, 0, 0, 0, 0x41] =
     \<lparr>status = Inr (), trace = [Invoke (io_write8 0x60 0x41)], cursor = []\<rparr>"
proof -
  have d: "derive_operands byte_input 0x60 8 [0x41] = Some (io_write8 0x60 0x41, [])"
    by (simp add: derive_operands_def run_defs)
  have h: "log_handler quiet_fuzzer = None"
    by (simp add: quiet_fuzzer_def)
  have "io_fuzzer_iterate byte_input sp quiet_fuzzer [0, 0, 0, 0, 8, 0, 0, 0, 0x41] =
      log_then_invoke quiet_fuzzer (log_format (io_write8 0x60 0x41)) (log_arguments sp (io_write8 0x60 0x41)) True (io_write8 0x60 0x41) []"
    using io_fuzzer_iterate_eq [OF quiet_port demo_selector] d by (simp add: iterate_switch_refines)
  then show ?thesis
    by (simp add: log_then_invoke_def io_fuzzer_log_def h)
qed

lemma raw_port: "iterate_port raw_input demo_fuzzer [0, 12] = Inr (0x60, [12])"
  by (simp add: run_defs)

lemma raw_selector: "input_derive_range raw_input [12] 0 11 = (12, [])"
  by (simp add: run_defs)

lemma raw_run:
  "io_fuzzer_iterate raw_input sp demo_fuzzer [0, 12] = \<lparr>status = Inl SIGABRT, trace = [], cursor = []\<rparr>"
  using io_fuzzer_iterate_eq [OF raw_port raw_selector, of sp]
  by (simp add: iterate_switch_def)

lemma open_port:
  "input_derive_range byte_input [0x34, 0x12] 0 65535 = (0x1234, [])"
  by (simp add: run_defs)

lemma demo_index:
  "input_derive_range byte_input [] 0 (uint (num_ports demo_fuzzer) - 1) = (0, [])"
  by (simp add: run_defs)

section \<open>The claims about an iteration\<close>

text \<open>
  Claim C1, as the code has it. When the port is resolved and the selector derived next
  lies in 0..11, the iteration settles on one primitive call \<open>c\<close> on that port whose width
  and kind are the catalog row of the selector. With no log handler installed the trace is
  that invocation alone, with no log event. With a handler installed the trace starts with
  one call of the handler whose \<open>function\<close> argument is the C name of \<open>c\<close>; the
  invocation of \<open>c\<close> follows when the handler returns, and nothing follows when it stops
  the process.
\<close>

theorem dispatch_matches_catalog:
  assumes "iterate_port I f s = Inr (port, s1)"
    and "input_derive_range I s1 0 11 = (sel, s2)"
    and "0 \<le> sel" and "sel \<le> 11"
  shows "\<exists>c. catalog sel = Some (call_width c, call_kind c) \<and> call_port c = port \<and>
           (case log_handler f of
              None \<Rightarrow>
                trace (io_fuzzer_iterate I sp f s) = [Invoke c]
                \<and> status (io_fuzzer_iterate I sp f s) = Inr ()
            | Some h \<Rightarrow>
                (\<exists>format ap. va_field ''function'' ap = Some (VStr (call_name c)) \<and>
                   (case h (log_stream f) format ap of
                      Inl e \<Rightarrow>
                        trace (io_fuzzer_iterate I sp f s) = [Log (log_stream f) format ap]
                        \<and> status (io_fuzzer_iterate I sp f s) = Inl (In_handler e)
                    | Inr _ \<Rightarrow>
                        trace (io_fuzzer_iterate I sp f s) = [Log (log_stream f) format ap, Invoke c]
                        \<and> status (io_fuzzer_iterate I sp f s) = Inr ())))"
proof -
  obtain c s' where d: "derive_operands I port sel s2 = Some (c, s')"
    and cat: "catalog sel = Some (call_width c, call_kind c)" and p: "call_port c = port"
    using derive_operands_inside [OF assms(3,4), of I port s2] by blast
  have r: "io_fuzzer_iterate I sp f s = log_then_invoke f (log_format c) (log_arguments sp c) True c s'"
    using io_fuzzer_iterate_eq [OF assms(1,2)] d by (simp add: iterate_switch_refines)
  show ?thesis
  proof (cases "log_handler f")
    case None
    with cat p r show ?thesis
      by (auto simp: trace_log_then_invoke status_log_then_invoke_True)
  next
    case (Some h)
    have "va_field ''function'' (log_arguments sp c) = Some (VStr (call_name c)) \<and>
          (case h (log_stream f) (log_format c) (log_arguments sp c) of
             Inl e \<Rightarrow>
               trace (io_fuzzer_iterate I sp f s) = [Log (log_stream f) (log_format c) (log_arguments sp c)]
               \<and> status (io_fuzzer_iterate I sp f s) = Inl (In_handler e)
           | Inr _ \<Rightarrow>
               trace (io_fuzzer_iterate I sp f s) = [Log (log_stream f) (log_format c) (log_arguments sp c), Invoke c]
               \<and> status (io_fuzzer_iterate I sp f s) = Inr ())"
      using Some r
      by (simp add: trace_log_then_invoke status_log_then_invoke_True function_field split: sum.splits)
    then have "\<exists>format ap. va_field ''function'' ap = Some (VStr (call_name c)) \<and>
          (case h (log_stream f) format ap of
             Inl e \<Rightarrow>
               trace (io_fuzzer_iterate I sp f s) = [Log (log_stream f) format ap]
               \<and> status (io_fuzzer_iterate I sp f s) = Inl (In_handler e)
           | Inr _ \<Rightarrow>
               trace (io_fuzzer_iterate I sp f s) = [Log (log_stream f) format ap, Invoke c]
               \<and> status (io_fuzzer_iterate I sp f s) = Inr ())"
      by blast
    with cat p Some show ?thesis by auto
  qed
qed

text \<open>The theorem at selector 8 on \<open>demo_fuzzer\<close>, its hypotheses discharged.\<close>

theorem dispatch_matches_catalog_witness:
  "iterate_port byte_input demo_fuzzer [0, 0, 0, 0, 8, 0, 0, 0, 0x41] = Inr (0x60, [8, 0, 0, 0, 0x41])
   \<and> input_derive_range byte_input [8, 0, 0, 0, 0x41] 0 11 = (8, [0x41])
   \<and> (0::int) \<le> 8 \<and> (8::int) \<le> 11
   \<and> (\<exists>c. catalog 8 = Some (call_width c, call_kind c) \<and> call_port c = 0x60 \<and>
           (case log_handler demo_fuzzer of
              None \<Rightarrow>
                trace (io_fuzzer_iterate byte_input 0 demo_fuzzer [0, 0, 0, 0, 8, 0, 0, 0, 0x41]) = [Invoke c]
                \<and> status (io_fuzzer_iterate byte_input 0 demo_fuzzer [0, 0, 0, 0, 8, 0, 0, 0, 0x41]) = Inr ()
            | Some h \<Rightarrow>
                (\<exists>format ap. va_field ''function'' ap = Some (VStr (call_name c)) \<and>
                   (case h (log_stream demo_fuzzer) format ap of
                      Inl e \<Rightarrow>
                        trace (io_fuzzer_iterate byte_input 0 demo_fuzzer [0, 0, 0, 0, 8, 0, 0, 0, 0x41])
                          = [Log (log_stream demo_fuzzer) format ap]
                        \<and> status (io_fuzzer_iterate byte_input 0 demo_fuzzer [0, 0, 0, 0, 8, 0, 0, 0, 0x41])
                          = Inl (In_handler e)
                    | Inr _ \<Rightarrow>
                        trace (io_fuzzer_iterate byte_input 0 demo_fuzzer [0, 0, 0, 0, 8, 0, 0, 0, 0x41])
                          = [Log (log_stream demo_fuzzer) format ap, Invoke c]
                        \<and> status (io_fuzzer_iterate byte_input 0 demo_fuzzer [0, 0, 0, 0, 8, 0, 0, 0, 0x41])
                          = Inr ()))))"
proof -
  have a: "(0::int) \<le> 8" and b: "(8::int) \<le> 11" by simp_all
  show ?thesis
    using demo_port demo_selector dispatch_matches_catalog [OF demo_port demo_selector a b, of 0]
    by simp
qed

text \<open>
  Claim C1 as stated fails: with no log handler installed, selector 8 invokes \<open>io_write8\<close>
  and makes no log event.
\<close>

theorem no_log_event_without_handler:
  "log_calls (trace (io_fuzzer_iterate byte_input 0 quiet_fuzzer [0, 0, 0, 0, 8, 0, 0, 0, 0x41])) = []
   \<and> invocations (trace (io_fuzzer_iterate byte_input 0 quiet_fuzzer [0, 0, 0, 0, 8, 0, 0, 0, 0x41]))
       = [io_write8 0x60 0x41]"
  by (simp add: quiet_run)

text \<open>
  Claim C2, as the code has it. A selector outside 0..11 reaches \<open>default: abort()\<close>:
  the process stops with SIGABRT and the trace is empty, so no primitive is invoked, no
  log call is made and the error handler is not called.
\<close>

theorem selector_out_of_range_aborts:
  assumes "iterate_port I f s = Inr (port, s1)"
    and "input_derive_range I s1 0 11 = (sel, s2)"
    and "sel < 0 \<or> 11 < sel"
  shows "io_fuzzer_iterate I sp f s = \<lparr>status = Inl SIGABRT, trace = [], cursor = s2\<rparr>"
  using io_fuzzer_iterate_eq [OF assms(1,2)] derive_operands_outside [OF assms(3), of I port s2]
  by (simp add: iterate_switch_refines)

text \<open>The theorem on \<open>raw_input\<close>, whose selector for the stream \<open>[0, 12]\<close> is 12.\<close>

theorem selector_out_of_range_aborts_witness:
  "iterate_port raw_input demo_fuzzer [0, 12] = Inr (0x60, [12])
   \<and> input_derive_range raw_input [12] 0 11 = (12, [])
   \<and> ((12::int) < 0 \<or> (11::int) < 12)
   \<and> io_fuzzer_iterate raw_input 0 demo_fuzzer [0, 12] = \<lparr>status = Inl SIGABRT, trace = [], cursor = []\<rparr>"
proof -
  have c: "(12::int) < 0 \<or> (11::int) < 12" by simp
  show ?thesis
    using raw_port raw_selector selector_out_of_range_aborts [OF raw_port raw_selector c, of 0]
    by simp
qed

text \<open>
  Claim C2 as stated fails: the run that stops on selector 12 has made no report through
  \<open>io_fuzzer_error\<close>.
\<close>

theorem out_of_range_selector_not_reported:
  "status (io_fuzzer_iterate raw_input 0 demo_fuzzer [0, 12]) = Inl SIGABRT
   \<and> reports (trace (io_fuzzer_iterate raw_input 0 demo_fuzzer [0, 12])) = []"
  by (simp add: raw_run)

text \<open>
  Claim C3, as the code has it. Without a port list (null, or zero entries) the port is the
  derived value cut to 16 bits, so it lies in 0..65535, and it is the derived value itself
  when that lies in 0..65535. With a list of \<open>N\<close> entries and an index \<open>i\<close> derived in
  \<open>0..N-1\<close>, the port is entry \<open>i\<close> cut to 16 bits; it equals the entry when the entry lies
  in 0..65535.
\<close>

theorem port_resolution:
  "(ports f = None \<or> num_ports f = 0 \<longrightarrow>
      input_derive_range I s 0 65535 = (r, s') \<longrightarrow>
        iterate_port I f s = Inr (word_of_int r, s')
        \<and> uint (word_of_int r :: 16 word) \<le> 65535
        \<and> (0 \<le> r \<and> r \<le> 65535 \<longrightarrow> uint (word_of_int r :: 16 word) = r))
   \<and> (ports f = Some ps \<and> num_ports f \<noteq> 0 \<and> unat (num_ports f) \<le> length ps \<longrightarrow>
        input_derive_range I s 0 (uint (num_ports f) - 1) = (i, s') \<and> 0 \<le> i \<and> i \<le> uint (num_ports f) - 1 \<longrightarrow>
          iterate_port I f s = Inr (word_of_int (sint (ps ! nat i)), s')
          \<and> nat i < unat (num_ports f)
          \<and> (0 \<le> sint (ps ! nat i) \<and> sint (ps ! nat i) \<le> 65535 \<longrightarrow>
                uint (word_of_int (sint (ps ! nat i)) :: 16 word) = sint (ps ! nat i)))"
proof (intro conjI impI)
  assume "ports f = None \<or> num_ports f = 0" and "input_derive_range I s 0 65535 = (r, s')"
  then show "iterate_port I f s = Inr (word_of_int r, s')"
    by (auto simp: iterate_port_def MAX_PORTS_def)
next
  show "uint (word_of_int r :: 16 word) \<le> 65535" by (rule uint_port_le)
next
  assume "0 \<le> r \<and> r \<le> 65535"
  then show "uint (word_of_int r :: 16 word) = r" by (simp add: uint_port)
next
  assume a: "ports f = Some ps \<and> num_ports f \<noteq> 0 \<and> unat (num_ports f) \<le> length ps"
    and b: "input_derive_range I s 0 (uint (num_ports f) - 1) = (i, s') \<and> 0 \<le> i \<and> i \<le> uint (num_ports f) - 1"
  have n1: "uint (num_ports f - 1) = uint (num_ports f) - 1"
    using a by (intro uint_pred) simp
  have i0: "0 \<le> i" and lt: "i < uint (num_ports f)" using b by simp_all
  note w = unat_index [OF i0 lt]
  have inb: "nat i < length ps" using w(2) a by linarith
  have d: "input_derive_range I s 0 (uint (num_ports f - 1)) = (i, s')"
    using b n1 by simp
  show "iterate_port I f s = Inr (word_of_int (sint (ps ! nat i)), s')"
    using a d w(1) inb by (simp add: iterate_port_def)
  show "nat i < unat (num_ports f)" by (rule w(2))
next
  assume h: "0 \<le> sint (ps ! nat i) \<and> sint (ps ! nat i) \<le> 65535"
  show "uint (word_of_int (sint (ps ! nat i)) :: 16 word) = sint (ps ! nat i)"
    by (rule uint_port) (use h in simp_all)
qed

text \<open>The theorem on \<open>open_fuzzer\<close> and on \<open>demo_fuzzer\<close>, its hypotheses discharged.\<close>

theorem port_resolution_witness:
  "(ports open_fuzzer = None \<or> num_ports open_fuzzer = 0)
   \<and> input_derive_range byte_input [0x34, 0x12] 0 65535 = (0x1234, [])
   \<and> iterate_port byte_input open_fuzzer [0x34, 0x12] = Inr (0x1234, [])
   \<and> ports demo_fuzzer = Some [0x60] \<and> num_ports demo_fuzzer \<noteq> 0
   \<and> unat (num_ports demo_fuzzer) \<le> length [0x60 :: 32 word]
   \<and> input_derive_range byte_input [] 0 (uint (num_ports demo_fuzzer) - 1) = (0, [])
   \<and> iterate_port byte_input demo_fuzzer [] = Inr (0x60, [])
   \<and> uint (0x60 :: 16 word) = sint (0x60 :: 32 word)"
proof -
  have a: "ports open_fuzzer = None \<or> num_ports open_fuzzer = 0"
    by (simp add: open_fuzzer_def)
  have b: "ports demo_fuzzer = Some [0x60] \<and> num_ports demo_fuzzer \<noteq> 0
      \<and> unat (num_ports demo_fuzzer) \<le> length [0x60 :: 32 word]"
    by (simp add: demo_fuzzer_def)
  have c: "input_derive_range byte_input [] 0 (uint (num_ports demo_fuzzer) - 1) = (0, [])
      \<and> (0::int) \<le> 0 \<and> 0 \<le> uint (num_ports demo_fuzzer) - 1"
    using demo_index by (simp add: demo_fuzzer_def)
  have 1: "iterate_port byte_input open_fuzzer [0x34, 0x12] = Inr (word_of_int 0x1234, [])"
    using port_resolution [of open_fuzzer byte_input "[0x34, 0x12]" "0x1234" "[]"] a open_port
    by blast
  have 2: "iterate_port byte_input demo_fuzzer [] = Inr (word_of_int (sint ([0x60 :: 32 word] ! nat 0)), [])"
    using port_resolution [of demo_fuzzer byte_input "[]" _ _ "[0x60]" 0] b c
    by blast
  show ?thesis
    using a b c open_port 1 2 by simp
qed

text \<open>
  Claim C3 as stated fails: for the one-entry list \<open>[65537]\<close> the resolved port is 1, which
  is not an entry of the list.
\<close>

theorem port_not_in_list:
  "ports wide_fuzzer = Some [65537]
   \<and> iterate_port byte_input wide_fuzzer [] = Inr (1, [])
   \<and> uint (1 :: 16 word) \<noteq> sint (65537 :: 32 word)"
  by (simp add: run_defs)

text \<open>
  Claim C4, as the code has it. In every trace of an iteration no log call comes after a
  primitive invocation; and when a log handler is installed and the iteration returns, the
  trace is the log call followed by the invocation.
\<close>

theorem log_precedes_invocation:
  "log_only_before_invoke False (trace (io_fuzzer_iterate I sp f s))
   \<and> (log_handler f \<noteq> None \<and> status (io_fuzzer_iterate I sp f s) = Inr () \<longrightarrow>
        (\<exists>format ap c. trace (io_fuzzer_iterate I sp f s) = [Log (log_stream f) format ap, Invoke c]))"
proof (cases "iterate_port I f s")
  case (Inl e)
  then show ?thesis by (simp add: io_fuzzer_iterate_def)
next
  case (Inr ps)
  obtain port s1 where ps: "ps = (port, s1)" by (cases ps)
  obtain sel s2 where d: "input_derive_range I s1 0 11 = (sel, s2)"
    by (cases "input_derive_range I s1 0 11")
  have r: "io_fuzzer_iterate I sp f s = iterate_switch I sp f port sel s2"
    using Inr ps d by (simp add: io_fuzzer_iterate_eq)
  show ?thesis
  proof (cases "derive_operands I port sel s2")
    case None
    with r show ?thesis by (simp add: iterate_switch_refines)
  next
    case (Some cs)
    obtain c s' where "cs = (c, s')" by (cases cs)
    with r Some show ?thesis
      by (auto simp: iterate_switch_refines trace_log_then_invoke status_log_then_invoke_True
          split: option.splits sum.splits)
  qed
qed

text \<open>The theorem on \<open>demo_fuzzer\<close>, which has a handler and whose run returns.\<close>

theorem log_precedes_invocation_witness:
  "log_only_before_invoke False (trace (io_fuzzer_iterate byte_input 0 demo_fuzzer [0, 0, 0, 0, 8, 0, 0, 0, 0x41]))
   \<and> log_handler demo_fuzzer \<noteq> None
   \<and> status (io_fuzzer_iterate byte_input 0 demo_fuzzer [0, 0, 0, 0, 8, 0, 0, 0, 0x41]) = Inr ()
   \<and> (\<exists>format ap c. trace (io_fuzzer_iterate byte_input 0 demo_fuzzer [0, 0, 0, 0, 8, 0, 0, 0, 0x41])
          = [Log (log_stream demo_fuzzer) format ap, Invoke c])"
proof -
  have h: "log_handler demo_fuzzer \<noteq> None" by (simp add: demo_fuzzer_def)
  have st: "status (io_fuzzer_iterate byte_input 0 demo_fuzzer [0, 0, 0, 0, 8, 0, 0, 0, 0x41]) = Inr ()"
    by (simp add: demo_run)
  show ?thesis
    using h st log_precedes_invocation [of byte_input 0 demo_fuzzer "[0, 0, 0, 0, 8, 0, 0, 0, 0x41]"]
    by blast
qed

text \<open>
  Claim C4 as stated fails: in the run of \<open>demo_fuzzer\<close> the log call is made when no
  primitive has been invoked yet.
\<close>

theorem log_not_after_invocation:
  "\<not> log_only_after_invoke False (trace (io_fuzzer_iterate byte_input 0 demo_fuzzer [0, 0, 0, 0, 8, 0, 0, 0, 0x41]))"
  by (simp add: demo_run)

text \<open>
  Claim C5. Two iterations on the same engine and the same stream, by instances with the
  same port list and number of ports, leave the cursor at the same place, and when both
  return they have invoked the same primitive with the same port and operands: the log
  handler, the log stream and the address of the scratch buffer have no part in what is
  derived.
\<close>

theorem derivation_is_deterministic:
  assumes "ports f1 = ports f2" and "num_ports f1 = num_ports f2"
  shows "cursor (io_fuzzer_iterate I sp1 f1 s) = cursor (io_fuzzer_iterate I sp2 f2 s)
         \<and> (status (io_fuzzer_iterate I sp1 f1 s) = Inr () \<and> status (io_fuzzer_iterate I sp2 f2 s) = Inr ()
              \<longrightarrow> invocations (trace (io_fuzzer_iterate I sp1 f1 s))
                   = invocations (trace (io_fuzzer_iterate I sp2 f2 s)))"
proof (cases "iterate_port I f1 s")
  case (Inl e)
  moreover from Inl have "iterate_port I f2 s = Inl e"
    using iterate_port_cong [OF assms, of I s] by simp
  ultimately show ?thesis by (simp add: io_fuzzer_iterate_def)
next
  case (Inr ps)
  obtain port s1 where ps: "ps = (port, s1)" by (cases ps)
  obtain sel s2 where d: "input_derive_range I s1 0 11 = (sel, s2)"
    by (cases "input_derive_range I s1 0 11")
  have p1: "iterate_port I f1 s = Inr (port, s1)" using Inr ps by simp
  have p2: "iterate_port I f2 s = Inr (port, s1)" using p1 iterate_port_cong [OF assms, of I s] by simp
  have r1: "io_fuzzer_iterate I sp1 f1 s = iterate_switch I sp1 f1 port sel s2"
    by (rule io_fuzzer_iterate_eq [OF p1 d])
  have r2: "io_fuzzer_iterate I sp2 f2 s = iterate_switch I sp2 f2 port sel s2"
    by (rule io_fuzzer_iterate_eq [OF p2 d])
  show ?thesis
  proof (cases "derive_operands I port sel s2")
    case None
    with r1 r2 show ?thesis by (simp add: iterate_switch_refines)
  next
    case (Some cs)
    obtain c s' where "cs = (c, s')" by (cases cs)
    with r1 r2 Some show ?thesis
      by (simp add: iterate_switch_refines cursor_log_then_invoke invocations_log_then_invoke)
  qed
qed

text \<open>The theorem on \<open>demo_fuzzer\<close> and \<open>quiet_fuzzer\<close>, which differ in the log handler only.\<close>

theorem derivation_is_deterministic_witness:
  "ports demo_fuzzer = ports quiet_fuzzer \<and> num_ports demo_fuzzer = num_ports quiet_fuzzer
   \<and> status (io_fuzzer_iterate byte_input 0 demo_fuzzer [0, 0, 0, 0, 8, 0, 0, 0, 0x41]) = Inr ()
   \<and> status (io_fuzzer_iterate byte_input 4096 quiet_fuzzer [0, 0, 0, 0, 8, 0, 0, 0, 0x41]) = Inr ()
   \<and> cursor (io_fuzzer_iterate byte_input 0 demo_fuzzer [0, 0, 0, 0, 8, 0, 0, 0, 0x41])
       = cursor (io_fuzzer_iterate byte_input 4096 quiet_fuzzer [0, 0, 0, 0, 8, 0, 0, 0, 0x41])
   \<and> invocations (trace (io_fuzzer_iterate byte_input 0 demo_fuzzer [0, 0, 0, 0, 8, 0, 0, 0, 0x41]))
       = invocations (trace (io_fuzzer_iterate byte_input 4096 quiet_fuzzer [0, 0, 0, 0, 8, 0, 0, 0, 0x41]))"
proof -
  have a: "ports demo_fuzzer = ports quiet_fuzzer" and b: "num_ports demo_fuzzer = num_ports quiet_fuzzer"
    by (simp_all add: demo_fuzzer_def quiet_fuzzer_def)
  have c: "status (io_fuzzer_iterate byte_input 0 demo_fuzzer [0, 0, 0, 0, 8, 0, 0, 0, 0x41]) = Inr ()"
    by (simp add: demo_run)
  have d: "status (io_fuzzer_iterate byte_input 4096 quiet_fuzzer [0, 0, 0, 0, 8, 0, 0, 0, 0x41]) = Inr ()"
    by (simp add: quiet_run)
  show ?thesis
    using a b c d
      derivation_is_deterministic [OF a b, of byte_input 0 "[0, 0, 0, 0, 8, 0, 0, 0, 0x41]" 4096]
    by blast
qed

section \<open>The claims about the handlers\<close>

text \<open>
  Claim C6. Every log call that an iteration makes on an open stream is the call for one
  primitive call \<open>c\<close>, the one the iteration goes on to invoke: its format is that of \<open>c\<close>
  and its arguments are \<open>function\<close> with the C name of \<open>c\<close>, \<open>port\<close> with its port, and then
  the fields of \<open>c\<close> in the order of the call (none, or \<open>value\<close> with the value written,
  or \<open>string\<close> with the buffer and \<open>count\<close> with the count). On it the default log handler
  returns and writes one record: \<open>time\<close> first, then \<open>function\<close>, then \<open>port\<close>, then exactly
  those fields with those values, in that order, each printed as the tag \<open>u\<close> prints it;
  and the quotes and braces of the record are balanced.
\<close>

theorem log_records_well_formed:
  assumes "Log (Some fd) format ap \<in> set (trace (io_fuzzer_iterate I sp f s))"
  shows "\<exists>c. (trace (io_fuzzer_iterate I sp f s) = [Log (Some fd) format ap]
               \<or> trace (io_fuzzer_iterate I sp f s) = [Log (Some fd) format ap, Invoke c])
           \<and> format = log_format c
           \<and> ap = [VStr ''function'', VStr (call_name c), VStr ''port'', VInt (ucast (call_port c))]
                  @ concat (map (\<lambda>(k, v). [VStr k, v]) (call_fields sp c))
           \<and> default_log_handler L now (Some fd) format ap
               = Inr (record_text now (call_name c) (ucast (call_port c))
                        (map (\<lambda>(k, v). (k, low32 v)) (call_fields sp c)))
           \<and> va_field ''function'' ap = Some (VStr (call_name c))
           \<and> va_field ''port'' ap = Some (VInt (ucast (call_port c)))
           \<and> map fst (call_fields sp c) \<in> {[], [''value''], [''string'', ''count'']}
           \<and> balanced False 0
                (record_text now (call_name c) (ucast (call_port c))
                   (map (\<lambda>(k, v). (k, low32 v)) (call_fields sp c)))"
proof -
  obtain c where c: "format = log_format c" "ap = log_arguments sp c"
    and t: "trace (io_fuzzer_iterate I sp f s) = [Log (Some fd) format ap]
            \<or> trace (io_fuzzer_iterate I sp f s) = [Log (Some fd) format ap, Invoke c]"
    using log_event_of_iterate [OF assms] by blast
  have 0: "ap = [VStr ''function'', VStr (call_name c), VStr ''port'', VInt (ucast (call_port c))]
                  @ concat (map (\<lambda>(k, v). [VStr k, v]) (call_fields sp c))"
    using c(2) by (simp only: log_arguments_def)
  have 1: "default_log_handler L now (Some fd) format ap
             = Inr (record_text now (call_name c) (ucast (call_port c))
                      (map (\<lambda>(k, v). (k, low32 v)) (call_fields sp c)))"
    using c default_log_handler_record [of L now fd c sp] by (simp only: record_fields_def)
  have "map fst (record_fields sp c) \<in> {[], [''value''], [''string'', ''count'']}"
    by (rule record_fields_keys)
  then have 2: "map fst (call_fields sp c) \<in> {[], [''value''], [''string'', ''count'']}"
    by (simp add: record_fields_def comp_def case_prod_unfold)
  have 3: "balanced False 0
             (record_text now (call_name c) (ucast (call_port c))
                (map (\<lambda>(k, v). (k, low32 v)) (call_fields sp c)))"
    using balanced_record [of now c "ucast (call_port c)" sp] by (simp only: record_fields_def)
  have 4: "va_field ''function'' ap = Some (VStr (call_name c))"
    using c by (simp add: function_field)
  have 5: "va_field ''port'' ap = Some (VInt (ucast (call_port c)))"
    using c by (simp add: port_field)
  show ?thesis
    by (intro exI [of _ c] conjI t c(1) 0 1 2 3 4 5)
qed

text \<open>
  The theorem on the log call of the run of \<open>demo_fuzzer\<close>: the call is
  \<open>io_write8 0x60 0x41\<close> and the record carries \<open>value\<close> with 65.
\<close>

theorem log_records_well_formed_witness:
  "Log (Some 1) ''suu'' [VStr ''function'', VStr ''io_write8'', VStr ''port'', VInt 0x60, VStr ''value'', VInt 0x41]
     \<in> set (trace (io_fuzzer_iterate byte_input 0 demo_fuzzer [0, 0, 0, 0, 8, 0, 0, 0, 0x41]))
   \<and> default_log_handler test_libc 1700000000 (Some 1) ''suu''
         [VStr ''function'', VStr ''io_write8'', VStr ''port'', VInt 0x60, VStr ''value'', VInt 0x41]
       = Inr (record_text 1700000000 ''io_write8'' 0x60 [(''value'', 0x41)])
   \<and> balanced False 0 (record_text 1700000000 ''io_write8'' 0x60 [(''value'', 0x41)])"
proof -
  let ?ap = "[VStr ''function'', VStr ''io_write8'', VStr ''port'', VInt 0x60, VStr ''value'', VInt 0x41]"
  let ?r = "io_fuzzer_iterate byte_input 0 demo_fuzzer [0, 0, 0, 0, 8, 0, 0, 0, 0x41]"
  have m: "Log (Some 1) ''suu'' ?ap \<in> set (trace ?r)"
    by (simp add: demo_run)
  obtain c where t: "trace ?r = [Log (Some 1) ''suu'' ?ap] \<or> trace ?r = [Log (Some 1) ''suu'' ?ap, Invoke c]"
    and h: "default_log_handler test_libc 1700000000 (Some 1) ''suu'' ?ap
        = Inr (record_text 1700000000 (call_name c) (ucast (call_port c))
                 (map (\<lambda>(k, v). (k, low32 v)) (call_fields 0 c)))"
    and b: "balanced False 0
        (record_text 1700000000 (call_name c) (ucast (call_port c))
           (map (\<lambda>(k, v). (k, low32 v)) (call_fields 0 c)))"
    using log_records_well_formed [OF m, of test_libc 1700000000] by blast
  from t have c: "c = io_write8 0x60 0x41" by (simp add: demo_run)
  show ?thesis using m h b by (simp add: c)
qed

text \<open>
  Claim C7. When the format holds a tag outside \<open>c d f o p q s u x z\<close> and the variadic
  arguments are there at the types the handler fetches, the default log handler on an open
  stream ends in \<open>abort()\<close>: it does not return, and no record is flushed.
\<close>

theorem unrecognised_tag_aborts:
  assumes "tag \<in> set format" and "tag \<notin> recognised_tags"
    and "default_log_handler L now (Some fd) format ap \<noteq> Inl Vararg_mismatch"
  shows "default_log_handler L now (Some fd) format ap = Inl SIGABRT"
  using log_fields_unrecognised [OF assms(1,2), of L 0 ap] assms(3)
  by (auto simp: default_log_handler_def)

text \<open>The theorem on the format \<open>sk\<close>.\<close>

theorem unrecognised_tag_aborts_witness:
  "CHR ''k'' \<in> set ''sk'' \<and> CHR ''k'' \<notin> recognised_tags
   \<and> default_log_handler test_libc 5 (Some 1) ''sk'' [VStr ''a'', VStr ''b'', VStr ''c'', VInt 1]
       \<noteq> Inl Vararg_mismatch
   \<and> default_log_handler test_libc 5 (Some 1) ''sk'' [VStr ''a'', VStr ''b'', VStr ''c'', VInt 1]
       = Inl SIGABRT"
proof -
  have 1: "CHR ''k'' \<in> set ''sk''" by simp
  have 2: "CHR ''k'' \<notin> recognised_tags" by (simp add: recognised_tags_def)
  have 3: "default_log_handler test_libc 5 (Some 1) ''sk'' [VStr ''a'', VStr ''b'', VStr ''c'', VInt 1]
       \<noteq> Inl Vararg_mismatch"
    by (simp add: default_log_handler_def log_value_s log_value_unrecognised [OF 2])
  show ?thesis
    using 1 2 3 unrecognised_tag_aborts [OF 1 2 3] by simp
qed

text \<open>
  Claim C8, as the code has it. With no error handler installed, which is the state the
  library starts in, \<open>io_fuzzer_error\<close> does nothing and returns, and \<open>io_fuzzer_create\<close>
  returns null after a failed allocation. With \<open>default_error_handler\<close> installed, as
  \<open>main\<close> does before it creates the instance, every report calls the handler and the
  process ends in its \<open>abort()\<close>.
\<close>

theorem fatal_report_needs_handler:
  "(error_handler g = None \<longrightarrow>
      io_fuzzer_error g st err format ap = ([], Inr ())
      \<and> io_fuzzer_create g (Failed errno) ps n = ([], Inr None))
   \<and> (error_handler g = Some (default_error_handler L) \<longrightarrow>
      io_fuzzer_error g st err format ap = ([Report st err format ap], Inl (In_handler SIGABRT))
      \<and> io_fuzzer_create g (Failed errno) ps n
          = ([Report 0 errno ''io_fuzzer_create'' []], Inl (In_handler SIGABRT)))"
  by (simp add: io_fuzzer_error_def io_fuzzer_create_def default_error_handler_def)

text \<open>The theorem on the initial globals and on the globals after \<open>main\<close> has set the handler.\<close>

theorem fatal_report_needs_handler_witness:
  "error_handler initial_globals = None
   \<and> io_fuzzer_create initial_globals (Failed 12) None 0 = ([], Inr None)
   \<and> error_handler (snd (io_fuzzer_set_error_handler (Some (default_error_handler test_libc)) initial_globals))
       = Some (default_error_handler test_libc)
   \<and> io_fuzzer_create (snd (io_fuzzer_set_error_handler (Some (default_error_handler test_libc)) initial_globals))
         (Failed 12) None 0
       = ([Report 0 12 ''io_fuzzer_create'' []], Inl (In_handler SIGABRT))"
proof -
  have a: "error_handler initial_globals = None"
    by (simp add: initial_globals_def)
  have b: "error_handler (snd (io_fuzzer_set_error_handler (Some (default_error_handler test_libc)) initial_globals))
       = Some (default_error_handler test_libc)"
    by (simp add: io_fuzzer_set_error_handler_def)
  show ?thesis
    using a b
      fatal_report_needs_handler [of initial_globals 0 0 "[]" "[]" 12 None 0 test_libc]
      fatal_report_needs_handler [of "snd (io_fuzzer_set_error_handler (Some (default_error_handler test_libc)) initial_globals)"
        0 0 "[]" "[]" 12 None 0 test_libc]
    by blast
qed

text \<open>
  Claim C8 as stated fails: in the initial state a failed allocation is not reported and
  \<open>io_fuzzer_create\<close> returns null to its caller.
\<close>

theorem unreported_allocation_failure:
  "reports (fst (io_fuzzer_create initial_globals (Failed 12) None 0)) = []
   \<and> snd (io_fuzzer_create initial_globals (Failed 12) None 0) = Inr None"
  by (simp add: io_fuzzer_create_def io_fuzzer_error_def initial_globals_def)

end
